theory Spec2Isabelle
  imports Complex_Main "HOL-Library.Sublist"
begin

section \<open>Python strings\<close>

text \<open>
  A Python \<open>str\<close> is a sequence of Unicode code points, so it is modelled as a list of
  natural numbers. The request texts and keyword tables of \<open>main.py\<close> are Cyrillic, which
  an 8-bit character cannot hold. \<open>lit\<close> embeds an ASCII literal; every other literal of
  the source is written out as its code points.
\<close>

type_synonym ustr = "nat list"

definition lit :: "string \<Rightarrow> ustr" where
  "lit s = map of_char s"

text \<open>\<open>sub in s\<close> on strings is \<^term>\<open>sublist sub s\<close>: a contiguous occurrence.\<close>

section \<open>UrlNormalizer: \<open>_convert_google_drive_url\<close>\<close>

text \<open>The character class \<open>[a-zA-Z0-9-_]\<close> of the pattern on line 41.\<close>

definition is_id_char :: "nat \<Rightarrow> bool" where
  "is_id_char c \<longleftrightarrow>
     (97 \<le> c \<and> c \<le> 122) \<or> (65 \<le> c \<and> c \<le> 90) \<or> (48 \<le> c \<and> c \<le> 57) \<or> c = 45 \<or> c = 95"

text \<open>
  \<open>re.search(r'/file/d/([a-zA-Z0-9-_]+)', url)\<close>: the leftmost position at which the
  literal \<open>/file/d/\<close> is followed by at least one character of the class; group 1 is the
  longest run of class characters there (\<open>+\<close> is greedy). \<open>None\<close> is "no match".
\<close>

fun search_file_id :: "ustr \<Rightarrow> ustr option" where
  "search_file_id [] = None"
| "search_file_id (c # cs) =
     (if prefix (lit ''/file/d/'') (c # cs) \<and> takeWhile is_id_char (drop 8 (c # cs)) \<noteq> []
      then Some (takeWhile is_id_char (drop 8 (c # cs)))
      else search_file_id cs)"

definition direct_prefix :: ustr where
  "direct_prefix = lit ''https://drive.google.com/uc?export=view&id=''"

definition convert_google_drive_url :: "ustr \<Rightarrow> ustr" where
  "convert_google_drive_url url =
     (if url = [] \<or> \<not> sublist (lit ''drive.google.com'') url then url
      else case search_file_id url of
             Some file_id \<Rightarrow> direct_prefix @ file_id
           | None \<Rightarrow> url)"

section \<open>Runtime services outside the repository\<close>

text \<open>
  Two tables of the Python runtime decide what the code does with text: the Unicode case
  mapping behind \<open>str.lower\<close>, and the decimal-digit property that both the pattern
  \<open>\d\<close> and \<open>int\<close> read. Neither is part of the repository, so the model takes them as a
  parameter and the general theorems hold for every such table.
\<close>

record unicode =
  str_lower :: "ustr \<Rightarrow> ustr"
  decimal_value :: "nat \<Rightarrow> nat option"

definition is_decimal :: "unicode \<Rightarrow> nat \<Rightarrow> bool" where
  "is_decimal U c \<longleftrightarrow> decimal_value U c \<noteq> None"

text \<open>
  The instance used for concrete inputs: lower-casing of ASCII and of the Cyrillic block
  U+0400 to U+042F, and the ASCII digits. On strings that consist of ASCII characters and
  of code points U+0400 to U+045F it is what Python computes.
\<close>

definition lower_cp :: "nat \<Rightarrow> nat" where
  "lower_cp c =
     (if 65 \<le> c \<and> c \<le> 90 then c + 32
      else if 1040 \<le> c \<and> c \<le> 1071 then c + 32
      else if 1024 \<le> c \<and> c \<le> 1039 then c + 80
      else c)"

definition basic_unicode :: unicode where
  "basic_unicode =
     \<lparr> str_lower = map lower_cp,
       decimal_value = (\<lambda>c. if 48 \<le> c \<and> c \<le> 57 then Some (c - 48) else None) \<rparr>"

text \<open>
  The exceptions that the modelled code can raise. All of them are subclasses of
  \<open>Exception\<close>, so both handlers of \<open>get_recommendation\<close> catch them.
\<close>

datatype error = IndexError | KeyError | ValueError | ImportError | TimeoutError | CallError

section \<open>Venue records\<close>

text \<open>
  A catalog entry is a Python dict from column names to strings, any key possibly absent.
  \<open>d.get(k, default)\<close> is \<open>dict_get\<close>.
\<close>

type_synonym venue = "string \<rightharpoonup> ustr"

definition dict_get :: "venue \<Rightarrow> string \<Rightarrow> ustr \<Rightarrow> ustr" where
  "dict_get d k dflt = (case d k of Some v \<Rightarrow> v | None \<Rightarrow> dflt)"

text \<open>\<open>any(keyword in text for keyword in keywords)\<close>\<close>

definition any_keyword_in :: "ustr list \<Rightarrow> ustr \<Rightarrow> bool" where
  "any_keyword_in keywords text = list_ex (\<lambda>keyword. sublist keyword text) keywords"

section \<open>MenuFilter: \<open>_filter_by_menu\<close>\<close>

text \<open>
  The dict \<open>food_keywords\<close> of lines 214 to 227, in insertion order. The keys are the
  Ukrainian dish names, the values their keywords in Ukrainian and English.
\<close>

definition food_keywords :: "(ustr \<times> ustr list) list" where
  "food_keywords =
     [([1087, 1110, 1094, 1072],
       [[1087, 1110, 1094], lit ''pizza'']),
      ([1087, 1072, 1089, 1090, 1072],
       [[1087, 1072, 1089, 1090], [1089, 1087, 1072, 1075, 1077, 1090, 1110], lit ''pasta'']),
      ([1073, 1091, 1088, 1075, 1077, 1088],
       [[1073, 1091, 1088, 1075, 1077, 1088], lit ''burger'', [1075, 1072, 1084, 1073, 1091, 1088, 1075, 1077, 1088]]),
      ([1089, 1091, 1096, 1110],
       [[1089, 1091, 1096], lit ''sushi'', [1088, 1086, 1083]]),
      ([1089, 1072, 1083, 1072, 1090],
       [[1089, 1072, 1083, 1072, 1090], lit ''salad'']),
      ([1093, 1091, 1084, 1091, 1089],
       [[1093, 1091, 1084, 1091, 1089], lit ''hummus'']),
      ([1092, 1072, 1083, 1072, 1092, 1077, 1083, 1100],
       [[1092, 1072, 1083, 1072, 1092, 1077, 1083, 1100], lit ''falafel'']),
      ([1096, 1072, 1091, 1088, 1084, 1072],
       [[1096, 1072, 1091, 1088, 1084], lit ''shawarma'']),
      ([1089, 1090, 1077, 1081, 1082],
       [[1089, 1090, 1077, 1081, 1082], lit ''steak'', [1084, 1103, 1089, 1086]]),
      ([1088, 1080, 1073, 1072],
       [[1088, 1080, 1073], lit ''fish'', [1083, 1086, 1089, 1086, 1089, 1100]]),
      ([1082, 1091, 1088, 1082, 1072],
       [[1082, 1091, 1088, 1082], [1082, 1091, 1088, 1080, 1095], lit ''chicken'']),
      ([1076, 1077, 1089, 1077, 1088, 1090],
       [[1076, 1077, 1089, 1077, 1088, 1090], [1090, 1086, 1088, 1090], [1090, 1110, 1088, 1072, 1084, 1110, 1089, 1091], [1084, 1086, 1088, 1086, 1079, 1080, 1074, 1086]])]"

text \<open>Lines 230 to 233: the dishes one of whose keywords occurs in the lower-cased request.\<close>

definition requested_dishes :: "unicode \<Rightarrow> ustr \<Rightarrow> ustr list" where
  "requested_dishes U user_request =
     map fst (filter (\<lambda>(dish, keywords). any_keyword_in keywords (str_lower U user_request))
                food_keywords)"

text \<open>
  Lines 242 to 249: the inner loop over the requested dishes, left at the first dish with a
  keyword in the menu text. \<open>food_keywords[dish]\<close> raises \<open>KeyError\<close> on a missing key.
\<close>

fun has_requested_dish :: "ustr \<Rightarrow> ustr list \<Rightarrow> error + bool" where
  "has_requested_dish menu_text [] = Inr False"
| "has_requested_dish menu_text (dish # dishes) =
     (case map_of food_keywords dish of
        None \<Rightarrow> Inl KeyError
      | Some dish_keywords \<Rightarrow>
          if any_keyword_in dish_keywords menu_text then Inr True
          else has_requested_dish menu_text dishes)"

text \<open>Lines 240 to 254: the outer loop, appending every restaurant that has such a dish.\<close>

fun filter_loop :: "unicode \<Rightarrow> ustr list \<Rightarrow> venue list \<Rightarrow> error + venue list" where
  "filter_loop U dishes [] = Inr []"
| "filter_loop U dishes (restaurant # rest) =
     (case has_requested_dish (str_lower U (dict_get restaurant ''menu'' [])) dishes of
        Inl e \<Rightarrow> Inl e
      | Inr has_dish \<Rightarrow>
          (case filter_loop U dishes rest of
             Inl e \<Rightarrow> Inl e
           | Inr kept \<Rightarrow> Inr (if has_dish then restaurant # kept else kept)))"

definition filter_by_menu :: "unicode \<Rightarrow> ustr \<Rightarrow> venue list \<Rightarrow> error + venue list" where
  "filter_by_menu U user_request restaurant_list =
     (let dishes = requested_dishes U user_request in
      if dishes \<noteq> [] then
        (case filter_loop U dishes restaurant_list of
           Inl e \<Rightarrow> Inl e
         | Inr filtered_restaurants \<Rightarrow>
             if filtered_restaurants \<noteq> [] then Inr filtered_restaurants
             else Inr restaurant_list)
      else Inr restaurant_list)"

text \<open>
  The filter in the words of the specification: a dish category is detected when one of
  its keywords occurs in the request, and a candidate matches when its menu text contains a
  keyword of a detected category.
\<close>

definition dish_detected :: "unicode \<Rightarrow> ustr \<Rightarrow> bool" where
  "dish_detected U user_request \<longleftrightarrow>
     (\<exists>(dish, keywords) \<in> set food_keywords.
        any_keyword_in keywords (str_lower U user_request))"

definition menu_matches :: "unicode \<Rightarrow> ustr \<Rightarrow> venue \<Rightarrow> bool" where
  "menu_matches U user_request restaurant \<longleftrightarrow>
     (\<exists>(dish, keywords) \<in> set food_keywords.
        any_keyword_in keywords (str_lower U user_request)
        \<and> any_keyword_in keywords (str_lower U (dict_get restaurant ''menu'' [])))"

section \<open>Randomness\<close>

text \<open>
  Every outcome of the \<open>random\<close> module that a call consumes is an input of the model:
  \<open>shuffle_draw i\<close> is the raw draw behind \<open>randbelow(i + 1)\<close> when \<open>random.shuffle\<close> is
  at position \<open>i\<close>, \<open>uniform k\<close> is the value of the \<open>k\<close>-th call of
  \<open>random.uniform(0, 2)\<close> (one call per scored candidate, in list order), and
  \<open>choice_draw\<close> is the raw draw behind \<open>random.choice\<close>. A raw draw is reduced modulo the
  bound, so every outcome of \<open>randbelow\<close> is reachable and no other. The theorems quantify
  over the whole record, hence over every run.

  The value of \<open>random.uniform\<close> is a float; it is modelled as a real number and the score
  as the exact sum. The concrete inputs below use jitter values that binary floating
  point represents and adds exactly.
\<close>

record rand =
  shuffle_draw :: "nat \<Rightarrow> nat"
  uniform :: "nat \<Rightarrow> real"
  choice_draw :: nat

text \<open>\<open>random.choice(seq)\<close> is \<open>seq[randbelow(len(seq))]\<close> and raises \<open>IndexError\<close> on an
  empty sequence.\<close>

definition random_choice :: "nat \<Rightarrow> 'a list \<Rightarrow> error + 'a" where
  "random_choice draw seq =
     (if seq = [] then Inl IndexError else Inr (seq ! (draw mod length seq)))"

text \<open>
  \<open>random.shuffle(x)\<close> of the standard library:
  \<^verbatim>\<open>for i in reversed(range(1, len(x))): j = randbelow(i + 1); x[i], x[j] = x[j], x[i]\<close>
\<close>

fun shuffle_from :: "(nat \<Rightarrow> nat) \<Rightarrow> nat \<Rightarrow> 'a list \<Rightarrow> 'a list" where
  "shuffle_from draw 0 x = x"
| "shuffle_from draw (Suc i) x =
     (let j = draw (Suc i) mod (Suc i + 1)
      in shuffle_from draw i (x[Suc i := x ! j, j := x ! Suc i]))"

definition shuffle :: "(nat \<Rightarrow> nat) \<Rightarrow> 'a list \<Rightarrow> 'a list" where
  "shuffle draw x = shuffle_from draw (length x - 1) x"

section \<open>FallbackScorer: \<open>_smart_fallback_selection\<close>\<close>

text \<open>
  The dict \<open>keywords_map\<close> of lines 274 to 281: for each of the six categories the
  request-side keywords and the venue-side keywords.
\<close>

definition keywords_map :: "(string \<times> ustr list \<times> ustr list) list" where
  "keywords_map =
     [(''romantic'',
       [[1088, 1086, 1084, 1072, 1085, 1090], [1087, 1086, 1073, 1072, 1095, 1077, 1085], [1076, 1074, 1086, 1093], [1110, 1085, 1090, 1080, 1084, 1085], [1079, 1072, 1090, 1080, 1096, 1085]],
       [[1110, 1085, 1090, 1080, 1084, 1085], [1088, 1086, 1084, 1072, 1085, 1090], [1076, 1083, 1103, 32, 1087, 1072, 1088], [1079, 1072, 1090, 1080, 1096, 1085]]),
      (''family'',
       [[1089, 1110, 1084], [1076, 1110, 1090], [1088, 1086, 1076, 1080, 1085], [1073, 1072, 1090, 1100, 1082]],
       [[1089, 1110, 1084, 1077, 1081, 1085], [1076, 1110, 1090], [1088, 1086, 1076, 1080, 1085]]),
      (''business'',
       [[1076, 1110, 1083], [1079, 1091, 1089, 1090, 1088, 1110, 1095], [1087, 1077, 1088, 1077, 1075, 1086, 1074], [1073, 1110, 1079, 1085, 1077, 1089]],
       [[1076, 1110, 1083], [1079, 1091, 1089, 1090, 1088, 1110, 1095], [1073, 1110, 1079, 1085, 1077, 1089]]),
      (''friends'',
       [[1076, 1088, 1091, 1079], [1082, 1086, 1084, 1087, 1072, 1085], [1075, 1091, 1088, 1090, 1086, 1084], [1074, 1077, 1089, 1077, 1083]],
       [[1082, 1086, 1084, 1087, 1072, 1085], [1076, 1088, 1091, 1079], [1084, 1086, 1083, 1086, 1076, 1110, 1078, 1085]]),
      (''quick'',
       [[1096, 1074, 1080, 1076, 1082], [1087, 1077, 1088, 1077, 1082, 1091, 1089], [1092, 1072, 1089, 1090], [1087, 1086, 1089, 1087, 1110, 1096, 1072]],
       [[1096, 1074, 1080, 1076, 1082], lit ''casual'', [1092, 1072, 1089, 1090]]),
      (''celebration'',
       [[1089, 1074, 1103, 1090, 1082, 1091, 1074], [1076, 1077, 1085, 1100, 32, 1085, 1072, 1088, 1086, 1076, 1078], [1102, 1074, 1110, 1083, 1077], [1089, 1074, 1103, 1090, 1086]],
       [[1089, 1074, 1103, 1090, 1082, 1086, 1074], [1087, 1088, 1086, 1089, 1090, 1086, 1088], [1075, 1088, 1091, 1087]])]"

text \<open>Line 287: the f-string joining vibe, aim and cuisine with single blanks, lower-cased.\<close>

definition restaurant_text :: "unicode \<Rightarrow> venue \<Rightarrow> ustr" where
  "restaurant_text U restaurant =
     str_lower U (dict_get restaurant ''vibe'' [] @ [32] @ dict_get restaurant ''aim'' []
                    @ [32] @ dict_get restaurant ''cuisine'' [])"

text \<open>Lines 286 to 295: five points for every category that both the request and the
  venue match.\<close>

definition category_score :: "unicode \<Rightarrow> ustr \<Rightarrow> venue \<Rightarrow> int" where
  "category_score U user_lower restaurant =
     fold (\<lambda>(category, user_keywords, restaurant_keywords) score.
             if any_keyword_in user_keywords user_lower then
               (if any_keyword_in restaurant_keywords (restaurant_text U restaurant)
                then score + 5 else score)
             else score)
          keywords_map 0"

text \<open>Lines 284 to 300: the list of (score, restaurant) pairs, the score with its jitter.\<close>

definition scored_restaurants :: "unicode \<Rightarrow> rand \<Rightarrow> ustr \<Rightarrow> venue list \<Rightarrow> (real \<times> venue) list" where
  "scored_restaurants U R user_request restaurant_list =
     map (\<lambda>(k, restaurant).
            (real_of_int (category_score U (str_lower U user_request) restaurant) + uniform R k,
             restaurant))
         (enumerate 0 restaurant_list)"

text \<open>
  Line 303: \<open>sort(key=lambda x: x[0], reverse=True)\<close> is a stable sort in descending order
  of the score, which is \<^const>\<open>sort_key\<close> on the negated score.
\<close>

definition sort_descending :: "(real \<times> venue) list \<Rightarrow> (real \<times> venue) list" where
  "sort_descending scored = sort_key (\<lambda>x. - fst x) scored"

definition smart_fallback_selection :: "unicode \<Rightarrow> rand \<Rightarrow> ustr \<Rightarrow> venue list \<Rightarrow> error + venue" where
  "smart_fallback_selection U R user_request restaurant_list =
     (case sort_descending (scored_restaurants U R user_request restaurant_list) of
        [] \<Rightarrow> Inl IndexError
      | best # others \<Rightarrow>
          if fst best > 0 then
            (case random_choice (choice_draw R)
                    (take (min 3 (length (best # others))) (best # others)) of
               Inl e \<Rightarrow> Inl e
             | Inr chosen \<Rightarrow> Inr (snd chosen))
          else random_choice (choice_draw R) restaurant_list)"

text \<open>
  The scorer's premises in the words of the specification: the categories whose
  request-side keywords the request matches, and whether a venue's combined text matches
  a set of venue-side keywords.
\<close>

definition request_categories :: "unicode \<Rightarrow> ustr \<Rightarrow> (string \<times> ustr list \<times> ustr list) list" where
  "request_categories U user_request =
     filter (\<lambda>(category, user_keywords, restaurant_keywords).
               any_keyword_in user_keywords (str_lower U user_request))
            keywords_map"

definition venue_fits :: "unicode \<Rightarrow> ustr list \<Rightarrow> venue \<Rightarrow> bool" where
  "venue_fits U restaurant_keywords restaurant \<longleftrightarrow>
     any_keyword_in restaurant_keywords (restaurant_text U restaurant)"

section \<open>RankingService: parsing the answer\<close>

text \<open>\<open>re.findall(r'\d+', text)\<close>: the maximal runs of decimal digits, left to right.\<close>

function findall_digits :: "(nat \<Rightarrow> bool) \<Rightarrow> ustr \<Rightarrow> ustr list" where
  "findall_digits d text =
     (case dropWhile (\<lambda>c. \<not> d c) text of
        [] \<Rightarrow> []
      | c # cs \<Rightarrow> (c # takeWhile d cs) # findall_digits d (dropWhile d cs))"
  by pat_completeness auto
termination
proof (relation "measure (\<lambda>(d, text). length text)")
  show "wf (measure (\<lambda>(d, text). length text))"
    by simp
next
  fix d :: "nat \<Rightarrow> bool" and s :: ustr and c cs
  assume rest: "dropWhile (\<lambda>c. \<not> d c) s = c # cs"
  have "length (dropWhile d cs) \<le> length cs"
    by (rule length_dropWhile_le)
  also have "length cs < length (dropWhile (\<lambda>c. \<not> d c) s)"
    by (simp add: rest)
  also have "\<dots> \<le> length s"
    by (rule length_dropWhile_le)
  finally show "((d, dropWhile d cs), (d, s)) \<in> measure (\<lambda>(d, text). length text)"
    by simp
qed

declare findall_digits.simps [simp del]

text \<open>The number that a string of decimal digits denotes.\<close>

definition decimal_number :: "unicode \<Rightarrow> ustr \<Rightarrow> int" where
  "decimal_number U digits =
     foldl (\<lambda>n c. 10 * n + (case decimal_value U c of Some v \<Rightarrow> int v | None \<Rightarrow> 0)) 0 digits"

text \<open>
  \<open>int(s)\<close> for a string of decimal digits. Python also accepts a sign, surrounding blanks
  and underscores, none of which a match of \<open>\d+\<close> contains; every other argument raises
  \<open>ValueError\<close>. Python's integers are unbounded, and so is \<^typ>\<open>int\<close>. The
  interpreter's limit on the length of a decimal string (4300 digits by default from
  Python 3.11 on) is not modelled; an answer of at most 200 tokens stays below it.
\<close>

definition py_int :: "unicode \<Rightarrow> ustr \<Rightarrow> error + int" where
  "py_int U s =
     (if s = [] \<or> \<not> list_all (is_decimal U) s then Inl ValueError
      else Inr (decimal_number U s))"

text \<open>
  Lines 168 to 182 up to the choice of the restaurant: \<open>Some choice_num\<close> when the first
  number of the answer, less one, is an index of the candidate list, \<open>None\<close> in the two
  branches that go to the fallback (no number, or a number out of range).
\<close>

definition parse_choice :: "unicode \<Rightarrow> ustr \<Rightarrow> nat \<Rightarrow> error + nat option" where
  "parse_choice U choice_text len =
     (case findall_digits (is_decimal U) choice_text of
        [] \<Rightarrow> Inr None
      | number # numbers \<Rightarrow>
          (case py_int U number of
             Inl e \<Rightarrow> Inl e
           | Inr n \<Rightarrow>
               let choice_num = n - 1 in
               if 0 \<le> choice_num \<and> choice_num < int len then Inr (Some (nat choice_num))
               else Inr None))"

section \<open>RecommendationEngine: \<open>get_recommendation\<close>\<close>

text \<open>
  The dict that \<open>get_recommendation\<close> and \<open>_fallback_selection_dict\<close> return has the same
  nine keys on every path, so it is a record. Both functions build it by the same text
  (lines 185 to 200 and 322 to 336), which \<open>recommendation_of\<close> embeds once.
\<close>

record recommendation =
  name :: ustr
  address :: ustr
  socials :: ustr
  vibe :: ustr
  aim :: ustr
  cuisine :: ustr
  menu :: ustr
  menu_url :: ustr
  photo :: ustr

definition default_name :: ustr where
  "default_name = [1056, 1077, 1089, 1090, 1086, 1088, 1072, 1085]"

definition default_address :: ustr where
  "default_address =
     [1040, 1076, 1088, 1077, 1089, 1072, 32, 1085, 1077, 32,
      1074, 1082, 1072, 1079, 1072, 1085, 1072]"

definition default_socials :: ustr where
  "default_socials =
     [1057, 1086, 1094, 45, 1084, 1077, 1088, 1077, 1078, 1110, 32, 1085, 1077, 32,
      1074, 1082, 1072, 1079, 1072, 1085, 1110]"

definition default_vibe :: ustr where
  "default_vibe =
     [1055, 1088, 1080, 1108, 1084, 1085, 1072, 32,
      1072, 1090, 1084, 1086, 1089, 1092, 1077, 1088, 1072]"

definition default_aim :: ustr where
  "default_aim =
     [1044, 1083, 1103, 32, 1073, 1091, 1076, 1100, 45, 1103, 1082, 1080, 1093, 32,
      1087, 1086, 1076, 1110, 1081]"

definition default_cuisine :: ustr where
  "default_cuisine = [1057, 1084, 1072, 1095, 1085, 1072, 32, 1082, 1091, 1093, 1085, 1103]"

definition recommendation_of :: "venue \<Rightarrow> recommendation" where
  "recommendation_of chosen =
     (let photo_url = dict_get chosen ''photo'' [];
          photo_url = (if photo_url \<noteq> [] then convert_google_drive_url photo_url
                       else photo_url)
      in \<lparr> name = dict_get chosen ''name'' default_name,
           address = dict_get chosen ''address'' default_address,
           socials = dict_get chosen ''socials'' default_socials,
           vibe = dict_get chosen ''vibe'' default_vibe,
           aim = dict_get chosen ''aim'' default_aim,
           cuisine = dict_get chosen ''cuisine'' default_cuisine,
           menu = dict_get chosen ''menu'' [],
           menu_url = dict_get chosen ''menu_url'' [],
           photo = photo_url \<rparr>)"

text \<open>
  Python lists are mutable objects that variables share by reference, and
  \<open>random.shuffle\<close> writes into its argument. The state therefore holds the list objects
  in a store: \<open>heap\<close> maps a reference to the list stored there, \<open>fresh\<close> is the next
  unused reference, and \<open>restaurants_data\<close> is the reference held by the attribute
  \<open>self.restaurants_data\<close>. The records in a list are never written by the modelled code,
  so they are stored by value.

  The state also holds the module-level variable \<open>openai_client\<close>, which is \<open>None\<close> until
  the first call has set it, and \<open>openai_importable\<close>: whether \<open>import openai\<close> succeeds in
  the running interpreter. The module is imported lazily, inside \<open>get_recommendation\<close>, so
  the program starts without it.
\<close>

type_synonym ref = nat

record pystate =
  heap :: "ref \<Rightarrow> venue list"
  fresh :: ref
  restaurants_data :: ref
  openai_client :: "unit option"
  openai_importable :: bool

text \<open>\<open>list.copy()\<close>: a new list object with the same elements.\<close>

definition list_copy :: "ref \<Rightarrow> pystate \<Rightarrow> ref \<times> pystate" where
  "list_copy p s =
     (fresh s, s\<lparr>heap := (heap s)(fresh s := heap s p), fresh := Suc (fresh s)\<rparr>)"

text \<open>\<open>random.shuffle(x)\<close> permutes the object that \<open>x\<close> refers to, in place.\<close>

definition random_shuffle :: "(nat \<Rightarrow> nat) \<Rightarrow> ref \<Rightarrow> pystate \<Rightarrow> pystate" where
  "random_shuffle draw p s = s\<lparr>heap := (heap s)(p := shuffle draw (heap s p))\<rparr>"

text \<open>
  The ranking call is the external collaborator. Its outcome is an input of the model:
  the wait of 20 seconds ran out, the call or the reading of its response raised, or it
  returned and \<open>choice_text\<close> (line 163, after \<open>strip\<close>) has the given value. The prompt
  (lines 106 to 140) is built from the candidates without writing to them and only flows
  into the call, so it is not part of the model.
\<close>

datatype ranking = Timeout | Failure | Answer ustr

text \<open>Lines 317 to 336.\<close>

definition fallback_selection_dict :: "unicode \<Rightarrow> rand \<Rightarrow> ustr \<Rightarrow> pystate \<Rightarrow> error + recommendation option" where
  "fallback_selection_dict U R user_request s =
     (case smart_fallback_selection U R user_request (heap s (restaurants_data s)) of
        Inl e \<Rightarrow> Inl e
      | Inr chosen \<Rightarrow> Inr (Some (recommendation_of chosen)))"

text \<open>
  Lines 166 to 182: the candidate that the answer names, or the fallback's choice among
  the filtered candidates.
\<close>

definition chosen_restaurant :: "unicode \<Rightarrow> rand \<Rightarrow> ustr \<Rightarrow> venue list \<Rightarrow> ustr \<Rightarrow> error + venue" where
  "chosen_restaurant U R user_request filtered_restaurants choice_text =
     (case parse_choice U choice_text (length filtered_restaurants) of
        Inl e \<Rightarrow> Inl e
      | Inr (Some choice_num) \<Rightarrow> Inr (filtered_restaurants ! choice_num)
      | Inr None \<Rightarrow> smart_fallback_selection U R user_request filtered_restaurants)"

text \<open>
  Lines 84 to 89: when the client is not yet set, \<open>import openai\<close> runs, raising
  \<open>ImportError\<close> if the module cannot be imported, and the client is set.
\<close>

definition init_openai_client :: "pystate \<Rightarrow> error + pystate" where
  "init_openai_client s =
     (if openai_client s = None then
        (if openai_importable s then Inr (s\<lparr>openai_client := Some ()\<rparr>)
         else Inl ImportError)
      else Inr s)"

text \<open>The body of the \<open>try\<close> statement, lines 83 to 200; \<open>Inl\<close> is a raised exception.\<close>

definition try_body :: "unicode \<Rightarrow> rand \<Rightarrow> ranking \<Rightarrow> ustr \<Rightarrow> pystate \<Rightarrow> (error + recommendation option) \<times> pystate" where
  "try_body U R call user_request s =
     (case init_openai_client s of
        Inl e \<Rightarrow> (Inl e, s)
      | Inr s0 \<Rightarrow>
          if heap s0 (restaurants_data s0) = [] then (Inr None, s0)
          else
            let (shuffled_restaurants, s1) = list_copy (restaurants_data s0) s0;
                s2 = random_shuffle (shuffle_draw R) shuffled_restaurants s1
            in (case filter_by_menu U user_request (heap s2 shuffled_restaurants) of
                  Inl e \<Rightarrow> (Inl e, s2)
                | Inr filtered_restaurants \<Rightarrow>
                    (case call of
                       Timeout \<Rightarrow> (Inl TimeoutError, s2)
                     | Failure \<Rightarrow> (Inl CallError, s2)
                     | Answer choice_text \<Rightarrow>
                         (case chosen_restaurant U R user_request filtered_restaurants
                                 choice_text of
                            Inl e \<Rightarrow> (Inl e, s2)
                          | Inr chosen \<Rightarrow>
                              (Inr (Some (recommendation_of chosen)), s2)))))"

text \<open>
  Lines 80 to 207. Both handlers, for \<open>asyncio.TimeoutError\<close> and for \<open>Exception\<close>,
  return \<open>_fallback_selection_dict(user_request)\<close>; an exception raised there leaves
  \<open>get_recommendation\<close>. Every exception of the model is caught by one of the two.
\<close>

definition get_recommendation :: "unicode \<Rightarrow> rand \<Rightarrow> ranking \<Rightarrow> ustr \<Rightarrow> pystate \<Rightarrow> (error + recommendation option) \<times> pystate" where
  "get_recommendation U R call user_request s =
     (case try_body U R call user_request s of
        (Inr result, s') \<Rightarrow> (Inr result, s')
      | (Inl e, s') \<Rightarrow> (fallback_selection_dict U R user_request s', s'))"

text \<open>The state after the copy and the shuffle of lines 97 and 98.\<close>

definition shuffled_state :: "rand \<Rightarrow> pystate \<Rightarrow> pystate" where
  "shuffled_state R s =
     s\<lparr>heap := (heap s)(fresh s := shuffle (shuffle_draw R) (heap s (restaurants_data s))),
       fresh := Suc (fresh s)\<rparr>"

section \<open>Concrete inputs\<close>

text \<open>
  The catalog and the request of the specification's scenario. The request is the
  Ukrainian for "looking for pizza", U+0448 U+0443 U+043A U+0430 U+044E, a blank,
  U+043F U+0456 U+0446 U+0443.
\<close>

definition sushi_bar :: venue where
  "sushi_bar = [''name'' \<mapsto> lit ''Sushi Bar'', ''menu'' \<mapsto> lit ''sushi rolls'']"

definition pizza_place :: venue where
  "pizza_place = [''name'' \<mapsto> lit ''Pizza Place'', ''menu'' \<mapsto> lit ''pizza, pasta'']"

definition pizza_request :: ustr where
  "pizza_request = [1096, 1091, 1082, 1072, 1102, 32, 1087, 1110, 1094, 1091]"

definition scenario_state :: pystate where
  "scenario_state =
     \<lparr> heap = (\<lambda>p. if p = 0 then [sushi_bar, pizza_place] else []),
       fresh = 1, restaurants_data = 0,
       openai_client = Some (), openai_importable = True \<rparr>"

text \<open>A run in which the first scored candidate draws the jitter 1 and every other one the
  jitter 1/2, and every other draw is 0.\<close>

definition scenario_rand :: rand where
  "scenario_rand =
     \<lparr> shuffle_draw = (\<lambda>i. 0), uniform = (\<lambda>k. if k = 0 then 1 else 1 / 2),
       choice_draw = 0 \<rparr>"

text \<open>
  A venue with a romantic atmosphere (vibe "romantychna" in Ukrainian) and one without any
  description, a request for romance ("romantyka"), and a run without jitter whose draw
  for \<open>random.choice\<close> is 1.
\<close>

definition amour :: venue where
  "amour = [''name'' \<mapsto> lit ''Amour'',
            ''vibe'' \<mapsto> [1088, 1086, 1084, 1072, 1085, 1090, 1080, 1095, 1085, 1072]]"

definition bistro :: venue where
  "bistro = [''name'' \<mapsto> lit ''Bistro'']"

definition romantic_request :: ustr where
  "romantic_request = [1088, 1086, 1084, 1072, 1085, 1090, 1080, 1082, 1072]"

definition no_jitter :: "nat \<Rightarrow> rand" where
  "no_jitter draw = \<lparr> shuffle_draw = (\<lambda>i. 0), uniform = (\<lambda>k. 0), choice_draw = draw \<rparr>"

text \<open>The first entry of \<open>keywords_map\<close>, the category \<open>romantic\<close>.\<close>

definition romantic_category :: "string \<times> ustr list \<times> ustr list" where
  "romantic_category = keywords_map ! 0"

text \<open>The answer "I'd pick option 3 because..." of the specification's example.\<close>

definition option_three :: ustr where
  "option_three = lit ''I'' @ [39] @ lit ''d pick option 3 because...''"


definition unready_empty_state :: pystate where
  "unready_empty_state =
     \<lparr> heap = (\<lambda>p. []), fresh = 1, restaurants_data = 0,
       openai_client = None, openai_importable = False \<rparr>"

section \<open>Properties of the UrlNormalizer\<close>

lemma search_file_id_no_slash:
  "\<forall>c \<in> set s. c \<noteq> 47 \<Longrightarrow> search_file_id s = None"
  by (induction s) (auto simp: lit_def)

lemma search_file_id_chars:
  "search_file_id s = Some fid \<Longrightarrow> fid \<noteq> [] \<and> (\<forall>c \<in> set fid. is_id_char c)"
proof (induction s)
  case Nil
  then show ?case by simp
next
  case (Cons c cs)
  then show ?case
    by (auto split: if_splits dest: set_takeWhileD)
qed

lemma search_direct_url:
  assumes "\<forall>c \<in> set fid. is_id_char c"
  shows "search_file_id (direct_prefix @ fid) = None"
proof -
  have "\<forall>c \<in> set fid. c \<noteq> 47"
    using assms by (auto simp: is_id_char_def)
  then have "search_file_id fid = None"
    by (rule search_file_id_no_slash)
  then show ?thesis
    by (simp add: direct_prefix_def lit_def)
qed

lemma convert_direct_url:
  assumes "\<forall>c \<in> set fid. is_id_char c"
  shows "convert_google_drive_url (direct_prefix @ fid) = direct_prefix @ fid"
  using search_direct_url [OF assms] by (simp add: convert_google_drive_url_def)

text \<open>
  C8. The normalizer is idempotent; it returns the empty URL, a URL without the provider's
  host name and a provider URL without a file identifier unchanged; it rewrites
  \<open>https://drive.google.com/file/d/ABC123/view\<close> to
  \<open>https://drive.google.com/uc?export=view&id=ABC123\<close> and leaves
  \<open>https://example.com/img.jpg\<close> as it is.
\<close>

theorem convert_google_drive_url_idempotent:
  "convert_google_drive_url (convert_google_drive_url u) = convert_google_drive_url u
   \<and> convert_google_drive_url [] = []
   \<and> (\<not> sublist (lit ''drive.google.com'') u \<longrightarrow> convert_google_drive_url u = u)
   \<and> (search_file_id u = None \<longrightarrow> convert_google_drive_url u = u)
   \<and> convert_google_drive_url (lit ''https://drive.google.com/file/d/ABC123/view'')
       = lit ''https://drive.google.com/uc?export=view&id=ABC123''
   \<and> convert_google_drive_url (lit ''https://example.com/img.jpg'')
       = lit ''https://example.com/img.jpg''"
proof -
  have idem: "convert_google_drive_url (convert_google_drive_url u) = convert_google_drive_url u"
  proof (cases "u = [] \<or> \<not> sublist (lit ''drive.google.com'') u")
    case True
    then show ?thesis by (auto simp: convert_google_drive_url_def)
  next
    case provider: False
    show ?thesis
    proof (cases "search_file_id u")
      case None
      then show ?thesis by (simp add: convert_google_drive_url_def)
    next
      case (Some fid)
      then have "\<forall>c \<in> set fid. is_id_char c"
        using search_file_id_chars by blast
      then have "convert_google_drive_url (direct_prefix @ fid) = direct_prefix @ fid"
        by (rule convert_direct_url)
      moreover have "convert_google_drive_url u = direct_prefix @ fid"
        using provider Some by (simp add: convert_google_drive_url_def)
      ultimately show ?thesis by simp
    qed
  qed
  have empty: "convert_google_drive_url [] = []"
    by (simp add: convert_google_drive_url_def)
  have other: "\<not> sublist (lit ''drive.google.com'') u \<longrightarrow> convert_google_drive_url u = u"
    by (simp add: convert_google_drive_url_def)
  have nomatch: "search_file_id u = None \<longrightarrow> convert_google_drive_url u = u"
    by (simp add: convert_google_drive_url_def)
  have drive: "convert_google_drive_url (lit ''https://drive.google.com/file/d/ABC123/view'')
       = lit ''https://drive.google.com/uc?export=view&id=ABC123''"
    by (simp add: convert_google_drive_url_def direct_prefix_def lit_def is_id_char_def
        sublist_Cons_right)
  have example: "convert_google_drive_url (lit ''https://example.com/img.jpg'')
       = lit ''https://example.com/img.jpg''"
    by (simp add: convert_google_drive_url_def lit_def sublist_Cons_right)
  from idem empty other nomatch drive example show ?thesis by blast
qed

theorem convert_google_drive_url_idempotent_witness:
  "\<not> sublist (lit ''drive.google.com'') (lit ''https://example.com/img.jpg'')
   \<and> search_file_id (lit ''https://example.com/img.jpg'') = None
   \<and> convert_google_drive_url (lit ''https://example.com/img.jpg'')
       = lit ''https://example.com/img.jpg''"
  using convert_google_drive_url_idempotent [of "lit ''https://example.com/img.jpg''"]
  by (simp add: lit_def sublist_Cons_right)

section \<open>Properties of the MenuFilter\<close>

lemma food_keys_distinct: "distinct (map fst food_keywords)"
  by (simp add: food_keywords_def)

lemma map_of_food_keywords:
  "map_of food_keywords dish = Some keywords \<longleftrightarrow> (dish, keywords) \<in> set food_keywords"
  using food_keys_distinct by (metis map_of_SomeD map_of_is_SomeI)

lemma requested_dishes_iff:
  "dish \<in> set (requested_dishes U user_request) \<longleftrightarrow>
     (\<exists>keywords. (dish, keywords) \<in> set food_keywords
        \<and> any_keyword_in keywords (str_lower U user_request))"
  by (force simp: requested_dishes_def)

lemma requested_dishes_empty:
  "requested_dishes U user_request = [] \<longleftrightarrow> \<not> dish_detected U user_request"
  by (auto simp: requested_dishes_def dish_detected_def filter_empty_conv)

lemma has_requested_dish_eq:
  assumes "\<forall>dish \<in> set dishes. \<exists>keywords. (dish, keywords) \<in> set food_keywords"
  shows "has_requested_dish menu_text dishes =
           Inr (\<exists>dish \<in> set dishes. \<exists>keywords. (dish, keywords) \<in> set food_keywords
                  \<and> any_keyword_in keywords menu_text)"
  using assms
proof (induction dishes)
  case Nil
  then show ?case by simp
next
  case (Cons dish dishes)
  then obtain kws where k: "(dish, kws) \<in> set food_keywords"
    by auto
  then have m: "map_of food_keywords dish = Some kws"
    by (simp add: map_of_food_keywords)
  have u: "\<And>k'. (dish, k') \<in> set food_keywords \<Longrightarrow> k' = kws"
    using m by (simp add: map_of_food_keywords [symmetric])
  show ?case
  proof (cases "any_keyword_in kws menu_text")
    case True
    then show ?thesis using m k by auto
  next
    case False
    then show ?thesis using m Cons u by auto
  qed
qed

lemma has_requested_dish_matches:
  "has_requested_dish (str_lower U (dict_get restaurant ''menu'' []))
      (requested_dishes U user_request)
   = Inr (menu_matches U user_request restaurant)"
proof -
  have "\<forall>dish \<in> set (requested_dishes U user_request).
          \<exists>keywords. (dish, keywords) \<in> set food_keywords"
    by (auto simp: requested_dishes_iff)
  from has_requested_dish_eq [OF this]
  have run: "has_requested_dish (str_lower U (dict_get restaurant ''menu'' []))
      (requested_dishes U user_request)
    = Inr (\<exists>dish \<in> set (requested_dishes U user_request). \<exists>keywords.
             (dish, keywords) \<in> set food_keywords
             \<and> any_keyword_in keywords (str_lower U (dict_get restaurant ''menu'' [])))"
    by blast
  have same: "k = k'" if "(d, k) \<in> set food_keywords" "(d, k') \<in> set food_keywords" for d k k'
    using that by (simp add: map_of_food_keywords [symmetric])
  let ?menu = "str_lower U (dict_get restaurant ''menu'' [])"
  let ?req = "str_lower U user_request"
  have "(\<exists>dish \<in> set (requested_dishes U user_request). \<exists>keywords.
             (dish, keywords) \<in> set food_keywords \<and> any_keyword_in keywords ?menu)
        \<longleftrightarrow> menu_matches U user_request restaurant" (is "?L \<longleftrightarrow> ?R")
  proof
    assume ?L
    then obtain dish k k' where "(dish, k) \<in> set food_keywords" "any_keyword_in k ?menu"
      "(dish, k') \<in> set food_keywords" "any_keyword_in k' ?req"
      by (auto simp: requested_dishes_iff)
    moreover from this have "k = k'" by (blast dest: same)
    ultimately show ?R
      by (force simp: menu_matches_def)
  next
    assume ?R
    then obtain dish k where "(dish, k) \<in> set food_keywords" "any_keyword_in k ?req"
      "any_keyword_in k ?menu"
      by (auto simp: menu_matches_def)
    then show ?L
      by (auto simp: requested_dishes_iff intro!: bexI [of _ dish])
  qed
  with run show ?thesis by simp
qed

lemma filter_loop_eq:
  "filter_loop U (requested_dishes U user_request) restaurant_list
   = Inr (filter (menu_matches U user_request) restaurant_list)"
  by (induction restaurant_list) (simp_all add: has_requested_dish_matches)

lemma filter_by_menu_eq:
  "filter_by_menu U user_request restaurant_list =
     (if dish_detected U user_request
         \<and> filter (menu_matches U user_request) restaurant_list \<noteq> []
      then Inr (filter (menu_matches U user_request) restaurant_list)
      else Inr restaurant_list)"
  by (simp add: filter_by_menu_def Let_def filter_loop_eq requested_dishes_empty)

text \<open>
  C5. When the request contains a keyword of some dish category and the menu text of at
  least one candidate contains a keyword of a detected category, the filter returns a
  non-empty list that is a subsequence of the input (the survivors in their relative
  order), namely the candidates that match. When no dish keyword is detected, or no
  candidate matches, it returns the input list unchanged. It never raises.
\<close>

theorem filter_by_menu_subset:
  "(dish_detected U user_request
      \<and> (\<exists>restaurant \<in> set restaurant_list. menu_matches U user_request restaurant)
    \<longrightarrow> (\<exists>filtered. filter_by_menu U user_request restaurant_list = Inr filtered
           \<and> filtered \<noteq> [] \<and> subseq filtered restaurant_list
           \<and> set filtered = {r \<in> set restaurant_list. menu_matches U user_request r}))
   \<and> (\<not> dish_detected U user_request
        \<or> \<not> (\<exists>restaurant \<in> set restaurant_list. menu_matches U user_request restaurant)
    \<longrightarrow> filter_by_menu U user_request restaurant_list = Inr restaurant_list)"
proof -
  let ?kept = "filter (menu_matches U user_request) restaurant_list"
  have nonempty: "?kept \<noteq> [] \<longleftrightarrow>
      (\<exists>restaurant \<in> set restaurant_list. menu_matches U user_request restaurant)"
    by (simp add: filter_empty_conv)
  have run: "filter_by_menu U user_request restaurant_list =
      (if dish_detected U user_request \<and> ?kept \<noteq> [] then Inr ?kept else Inr restaurant_list)"
    by (rule filter_by_menu_eq)
  show ?thesis
    unfolding run using nonempty by auto
qed

text \<open>The scenario of the specification, evaluated step by step.\<close>

lemma lower_pizza_request: "str_lower basic_unicode pizza_request = pizza_request"
  by (simp add: basic_unicode_def pizza_request_def lower_cp_def)

lemma requested_dishes_pizza:
  "requested_dishes basic_unicode pizza_request = [[1087, 1110, 1094, 1072]]"
  unfolding requested_dishes_def lower_pizza_request
  by (simp add: food_keywords_def any_keyword_in_def lit_def pizza_request_def sublist_Cons_right)

lemma menu_sushi_bar:
  "str_lower basic_unicode (dict_get sushi_bar ''menu'' []) = lit ''sushi rolls''"
  by (simp add: basic_unicode_def sushi_bar_def dict_get_def lower_cp_def lit_def)

lemma menu_pizza_place:
  "str_lower basic_unicode (dict_get pizza_place ''menu'' []) = lit ''pizza, pasta''"
  by (simp add: basic_unicode_def pizza_place_def dict_get_def lower_cp_def lit_def)

lemma no_pizza_in_sushi_rolls:
  "has_requested_dish (lit ''sushi rolls'') [[1087, 1110, 1094, 1072]] = Inr False"
  by (simp add: food_keywords_def any_keyword_in_def lit_def sublist_Cons_right)

lemma pizza_in_pizza_pasta:
  "has_requested_dish (lit ''pizza, pasta'') [[1087, 1110, 1094, 1072]] = Inr True"
  by (simp add: food_keywords_def any_keyword_in_def lit_def sublist_Cons_right)

lemma filter_by_menu_scenario:
  "filter_by_menu basic_unicode pizza_request [sushi_bar, pizza_place] = Inr [pizza_place]"
  by (simp add: filter_by_menu_def requested_dishes_pizza menu_sushi_bar menu_pizza_place
      no_pizza_in_sushi_rolls pizza_in_pizza_pasta del: has_requested_dish.simps)

lemma dish_detected_pizza: "dish_detected basic_unicode pizza_request"
  using requested_dishes_pizza requested_dishes_empty [of basic_unicode pizza_request]
  by simp

lemma menu_matches_pizza_place: "menu_matches basic_unicode pizza_request pizza_place"
  using has_requested_dish_matches [of basic_unicode pizza_place pizza_request]
  by (simp add: requested_dishes_pizza menu_pizza_place pizza_in_pizza_pasta
      del: has_requested_dish.simps)

lemma lower_hello: "str_lower basic_unicode (lit ''hello'') = lit ''hello''"
  by (simp add: basic_unicode_def lower_cp_def lit_def)

lemma requested_dishes_hello: "requested_dishes basic_unicode (lit ''hello'') = []"
  unfolding requested_dishes_def lower_hello
  by (simp add: food_keywords_def any_keyword_in_def lit_def sublist_Cons_right)

theorem filter_by_menu_subset_witness:
  "dish_detected basic_unicode pizza_request
   \<and> menu_matches basic_unicode pizza_request pizza_place
   \<and> filter_by_menu basic_unicode pizza_request [sushi_bar, pizza_place] = Inr [pizza_place]
   \<and> \<not> dish_detected basic_unicode (lit ''hello'')
   \<and> filter_by_menu basic_unicode (lit ''hello'') [sushi_bar, pizza_place]
       = Inr [sushi_bar, pizza_place]"
proof -
  have general: "\<not> dish_detected basic_unicode (lit ''hello'')"
    using requested_dishes_hello requested_dishes_empty [of basic_unicode "lit ''hello''"]
    by simp
  show ?thesis
    using filter_by_menu_subset [of basic_unicode pizza_request "[sushi_bar, pizza_place]"]
      filter_by_menu_subset [of basic_unicode "lit ''hello''" "[sushi_bar, pizza_place]"]
      dish_detected_pizza menu_matches_pizza_place general filter_by_menu_scenario
    by simp
qed

section \<open>Properties of the FallbackScorer\<close>

lemma map_snd_scored:
  "map snd (scored_restaurants U R user_request restaurant_list) = restaurant_list"
proof -
  have "map snd (scored_restaurants U R user_request restaurant_list)
        = map snd (enumerate 0 restaurant_list)"
    by (simp add: scored_restaurants_def case_prod_unfold comp_def)
  then show ?thesis by (simp add: map_snd_enumerate)
qed

lemma set_sort_descending: "set (sort_descending scored) = set scored"
  by (simp add: sort_descending_def)

lemma sorted_candidates:
  "snd ` set (sort_descending (scored_restaurants U R user_request restaurant_list))
   = set restaurant_list"
proof -
  have "snd ` set (scored_restaurants U R user_request restaurant_list)
        = set (map snd (scored_restaurants U R user_request restaurant_list))"
    by simp
  then show ?thesis
    by (simp only: set_sort_descending map_snd_scored)
qed

lemma random_choice_member:
  "seq \<noteq> [] \<Longrightarrow> \<exists>x \<in> set seq. random_choice draw seq = Inr x"
  by (simp add: random_choice_def)

lemma smart_fallback_selection_in_list:
  assumes "restaurant_list \<noteq> []"
  shows "\<exists>chosen \<in> set restaurant_list.
           smart_fallback_selection U R user_request restaurant_list = Inr chosen"
proof -
  let ?sorted = "sort_descending (scored_restaurants U R user_request restaurant_list)"
  have "snd ` set ?sorted \<noteq> {}"
    using assms by (simp only: sorted_candidates) simp
  then obtain best others where sorted: "?sorted = best # others"
    by (cases ?sorted) auto
  show ?thesis
  proof (cases "fst best > 0")
    case True
    let ?top = "take (min 3 (length (best # others))) (best # others)"
    have "?top \<noteq> []" by simp
    then obtain x where x: "x \<in> set ?top" "random_choice (choice_draw R) ?top = Inr x"
      using random_choice_member by blast
    from x(1) have "x \<in> set ?sorted"
      unfolding sorted by (rule in_set_takeD)
    then have "snd x \<in> set restaurant_list"
      using sorted_candidates [of U R user_request restaurant_list] by blast
    moreover have "smart_fallback_selection U R user_request restaurant_list = Inr (snd x)"
      using True x(2) by (simp add: smart_fallback_selection_def sorted)
    ultimately show ?thesis by blast
  next
    case False
    obtain x where "x \<in> set restaurant_list"
      "random_choice (choice_draw R) restaurant_list = Inr x"
      using random_choice_member [OF assms] by blast
    moreover have "smart_fallback_selection U R user_request restaurant_list
        = random_choice (choice_draw R) restaurant_list"
      using False by (simp add: smart_fallback_selection_def sorted)
    ultimately show ?thesis by auto
  qed
qed

text \<open>
  C7. For every non-empty candidate list, every request and every outcome of the jitter
  and of \<open>random.choice\<close>, the fallback selection returns normally, and what it returns is
  an element of the candidate list.
\<close>

theorem smart_fallback_selection_member:
  assumes "restaurant_list \<noteq> []"
  shows "\<exists>chosen \<in> set restaurant_list.
           smart_fallback_selection U R user_request restaurant_list = Inr chosen"
  using assms by (rule smart_fallback_selection_in_list)


lemma fold_add_five:
  "fold (\<lambda>e score. if P e then score + 5 else score) es (a::int)
   = a + 5 * int (length (filter P es))"
  by (induction es arbitrary: a) simp_all

lemma category_score_count:
  "category_score U user_lower restaurant =
     5 * int (length (filter (\<lambda>(category, user_keywords, restaurant_keywords).
                 any_keyword_in user_keywords user_lower
                 \<and> any_keyword_in restaurant_keywords (restaurant_text U restaurant))
               keywords_map))"
proof -
  have "(\<lambda>(category, user_keywords, restaurant_keywords) score.
             if any_keyword_in user_keywords user_lower then
               (if any_keyword_in restaurant_keywords (restaurant_text U restaurant)
                then score + 5 else score)
             else score)
        = (\<lambda>e (score::int). if (case e of (category, user_keywords, restaurant_keywords) \<Rightarrow>
                 any_keyword_in user_keywords user_lower
                 \<and> any_keyword_in restaurant_keywords (restaurant_text U restaurant))
              then score + 5 else score)"
    by (auto simp: fun_eq_iff)
  then have "category_score U user_lower restaurant
      = fold (\<lambda>e (score::int). if (case e of (category, user_keywords, restaurant_keywords) \<Rightarrow>
                 any_keyword_in user_keywords user_lower
                 \<and> any_keyword_in restaurant_keywords (restaurant_text U restaurant))
              then score + 5 else score) keywords_map 0"
    unfolding category_score_def by (rule arg_cong [where f = "\<lambda>g. fold g keywords_map 0"])
  then show ?thesis
    by (simp only: fold_add_five)
qed

lemma category_score_one_category:
  assumes "request_categories U user_request = [(category, user_keywords, restaurant_keywords)]"
  shows "category_score U (str_lower U user_request) restaurant
         = (if venue_fits U restaurant_keywords restaurant then 5 else 0)"
proof -
  let ?fits = "\<lambda>(category, user_keywords, restaurant_keywords).
      any_keyword_in restaurant_keywords (restaurant_text U restaurant)"
  let ?asked = "\<lambda>(category, user_keywords, restaurant_keywords).
      any_keyword_in user_keywords (str_lower U user_request)"
  have "filter (\<lambda>(category, user_keywords, restaurant_keywords).
                 any_keyword_in user_keywords (str_lower U user_request)
                 \<and> any_keyword_in restaurant_keywords (restaurant_text U restaurant))
               keywords_map
        = filter ?fits (filter ?asked keywords_map)"
    by (simp add: case_prod_unfold conj_commute)
  also have "\<dots> = filter ?fits [(category, user_keywords, restaurant_keywords)]"
    using assms by (simp add: request_categories_def)
  finally show ?thesis
    by (simp add: category_score_count venue_fits_def)
qed

lemma scored_restaurants_nth:
  assumes "k < length restaurant_list"
  shows "scored_restaurants U R user_request restaurant_list ! k =
     (real_of_int (category_score U (str_lower U user_request) (restaurant_list ! k))
        + uniform R k, restaurant_list ! k)"
  using assms by (simp add: scored_restaurants_def nth_enumerate_eq)

lemma length_scored_restaurants:
  "length (scored_restaurants U R user_request restaurant_list) = length restaurant_list"
  by (simp add: scored_restaurants_def)

lemma sort_descending_head:
  assumes "sort_descending scored = best # others" and "p \<in> set scored"
  shows "fst p \<le> fst best"
proof -
  have "sorted (map (\<lambda>x. - fst x) (sort_descending scored))"
    unfolding sort_descending_def by (rule sorted_sort_key)
  then have "sorted (map (\<lambda>x. - fst x) (best # others))"
    by (simp only: assms(1))
  moreover have "p \<in> set (best # others)"
    using assms by (metis set_sort_descending)
  ultimately show ?thesis by auto
qed

lemma sort_descending_count:
  "length (filter P (sort_descending scored)) = length (filter P scored)"
  by (simp add: sort_descending_def filter_sort)


text \<open>
  C6, as the code has it. Let the jitter be zero, let the request match the request-side
  keywords of exactly one category, and let exactly one candidate (the one at index \<open>i\<close>)
  match that category's venue-side keywords. Then that candidate is the unique top scorer:
  it comes first in the sorted list with score 5 and every other candidate has score 0.
  The selection returns the candidate at position
  \<open>choice_draw mod min 3 (length restaurant_list)\<close> of the sorted list, that is, one of the
  first three; it is the matching candidate when that position is 0, which is every run
  only for a list of one candidate.
\<close>

theorem smart_fallback_selection_unique_match:
  assumes jitter: "\<forall>k. uniform R k = 0"
    and asked: "request_categories U user_request
                  = [(category, user_keywords, restaurant_keywords)]"
    and i: "i < length restaurant_list"
    and fits: "venue_fits U restaurant_keywords (restaurant_list ! i)"
    and unique: "\<forall>j < length restaurant_list.
                   j \<noteq> i \<longrightarrow> \<not> venue_fits U restaurant_keywords (restaurant_list ! j)"
  shows "\<exists>others.
           sort_descending (scored_restaurants U R user_request restaurant_list)
             = (5, restaurant_list ! i) # others
           \<and> (\<forall>p \<in> set others. fst p = 0)
           \<and> smart_fallback_selection U R user_request restaurant_list
               = Inr (snd (((5, restaurant_list ! i) # others)
                            ! (choice_draw R mod min 3 (length restaurant_list))))
           \<and> (choice_draw R mod min 3 (length restaurant_list) = 0
                \<longrightarrow> smart_fallback_selection U R user_request restaurant_list
                     = Inr (restaurant_list ! i))"
proof -
  let ?scored = "scored_restaurants U R user_request restaurant_list"
  let ?n = "length restaurant_list"
  have len: "length ?scored = ?n"
    by (rule length_scored_restaurants)
  have nth: "?scored ! k = ((if k = i then 5 else 0), restaurant_list ! k)" if "k < ?n" for k
    using that jitter fits unique
    by (simp add: scored_restaurants_nth category_score_one_category [OF asked])
  have winner: "(5, restaurant_list ! i) \<in> set ?scored"
    using nth [OF i] i len by (metis nth_mem)
  have scores: "p = (5, restaurant_list ! i) \<or> fst p = 0" if "p \<in> set ?scored" for p
  proof -
    from that obtain k where "k < ?n" "p = ?scored ! k"
      using len by (metis in_set_conv_nth)
    then show ?thesis using nth by auto
  qed
  have "{k. k < length ?scored \<and> fst (?scored ! k) = 5} = {i}"
    using nth i len by (auto split: if_splits)
  then have one: "length (filter (\<lambda>p. fst p = 5) ?scored) = 1"
    by (simp add: length_filter_conv_card)
  have "sort_descending ?scored \<noteq> []"
  proof
    assume "sort_descending ?scored = []"
    then have "set (sort_descending ?scored) = {}" by simp
    then have "set ?scored = {}" by (simp only: set_sort_descending)
    with winner show False by simp
  qed
  then obtain best others where sorted: "sort_descending ?scored = best # others"
    by (cases "sort_descending ?scored") simp_all
  have "best \<in> set (sort_descending ?scored)"
    by (simp add: sorted)
  then have "best \<in> set ?scored"
    by (simp only: set_sort_descending)
  then have "best = (5, restaurant_list ! i) \<or> fst best = 0"
    by (rule scores)
  moreover have "5 \<le> fst best"
    using sort_descending_head [OF sorted winner] by simp
  ultimately have best: "best = (5, restaurant_list ! i)"
    by auto
  have "length (filter (\<lambda>p. fst p = 5) (best # others)) = 1"
    using one sort_descending_count [of "\<lambda>p. fst p = 5" ?scored] by (simp only: sorted)
  then have "filter (\<lambda>p. fst p = 5) others = []"
    by (simp add: best)
  then have no_five: "\<forall>p \<in> set others. fst p \<noteq> 5"
    by (simp add: filter_empty_conv)
  have zero: "\<forall>p \<in> set others. fst p = 0"
  proof
    fix p assume p: "p \<in> set others"
    then have "p \<in> set (sort_descending ?scored)"
      by (simp add: sorted)
    then have "p \<in> set ?scored"
      by (simp only: set_sort_descending)
    then have "p = (5, restaurant_list ! i) \<or> fst p = 0" by (rule scores)
    with no_five p show "fst p = 0" by auto
  qed
  have "length (sort_descending ?scored) = length ?scored"
    by (simp add: sort_descending_def)
  then have n: "length (best # others) = ?n"
    by (simp only: sorted len)
  let ?d = "choice_draw R mod min 3 ?n"
  let ?top = "take (min 3 (length (best # others))) (best # others)"
  have "0 < min 3 ?n"
    using i by auto
  then have d: "?d < min 3 ?n"
    by (rule mod_less_divisor)
  have ltop: "length ?top = min 3 ?n"
    by (simp only: length_take n min.idem)
  have "?top \<noteq> []"
    using ltop \<open>0 < min 3 ?n\<close> by (metis length_greater_0_conv)
  then have "random_choice (choice_draw R) ?top = Inr (?top ! (choice_draw R mod length ?top))"
    by (simp only: random_choice_def if_False)
  also have "?top ! (choice_draw R mod length ?top) = ?top ! ?d"
    by (simp only: ltop)
  also have "?top ! ?d = (best # others) ! ?d"
    using d by (simp only: n nth_take)
  finally have pick: "random_choice (choice_draw R) ?top = Inr ((best # others) ! ?d)" .
  have "0 < fst best"
    by (simp add: best)
  then have chosen: "smart_fallback_selection U R user_request restaurant_list
      = Inr (snd ((best # others) ! ?d))"
    by (simp only: smart_fallback_selection_def sorted list.case if_True pick sum.case)
  have first: "?d = 0 \<longrightarrow> smart_fallback_selection U R user_request restaurant_list
      = Inr (restaurant_list ! i)"
    by (simp add: chosen best)
  from sorted zero chosen first
  have "sort_descending ?scored = (5, restaurant_list ! i) # others
     \<and> (\<forall>p \<in> set others. fst p = 0)
     \<and> smart_fallback_selection U R user_request restaurant_list
         = Inr (snd (((5, restaurant_list ! i) # others) ! ?d))
     \<and> (?d = 0 \<longrightarrow> smart_fallback_selection U R user_request restaurant_list
                = Inr (restaurant_list ! i))"
    unfolding best by (intro conjI) assumption+
  then show ?thesis by (rule exI)
qed

text \<open>The scorer on two concrete candidates.\<close>

lemma lower_romantic_request: "str_lower basic_unicode romantic_request = romantic_request"
  by (simp add: basic_unicode_def romantic_request_def lower_cp_def)

lemma request_categories_romantic:
  "request_categories basic_unicode romantic_request = [romantic_category]"
  unfolding request_categories_def lower_romantic_request
  by (simp add: keywords_map_def romantic_category_def any_keyword_in_def lit_def
      romantic_request_def sublist_Cons_right)

lemma romantic_category_keywords:
  "romantic_category = (''romantic'', fst (snd romantic_category), snd (snd romantic_category))"
  by (simp add: romantic_category_def keywords_map_def)

lemma amour_fits: "venue_fits basic_unicode (snd (snd romantic_category)) amour"
  by (simp add: venue_fits_def restaurant_text_def romantic_category_def keywords_map_def
      any_keyword_in_def amour_def dict_get_def basic_unicode_def lower_cp_def
      sublist_Cons_right)

lemma bistro_unfit: "\<not> venue_fits basic_unicode (snd (snd romantic_category)) bistro"
  by (simp add: venue_fits_def restaurant_text_def romantic_category_def keywords_map_def
      any_keyword_in_def bistro_def dict_get_def basic_unicode_def lower_cp_def
      sublist_Cons_right)

lemma scored_amour_bistro:
  "scored_restaurants basic_unicode (no_jitter draw) romantic_request [amour, bistro]
   = [(5, amour), (0, bistro)]"
proof -
  have one: "request_categories basic_unicode romantic_request
     = [(''romantic'', fst (snd romantic_category), snd (snd romantic_category))]"
    using request_categories_romantic romantic_category_keywords by simp
  show ?thesis
    by (simp add: scored_restaurants_def category_score_one_category [OF one]
        amour_fits bistro_unfit no_jitter_def)
qed

lemma sorted_amour_bistro:
  "sort_descending [(5, amour), (0, bistro)] = [(5, amour), (0, bistro)]"
  by (simp add: sort_descending_def)

lemma fallback_amour_bistro_first:
  "smart_fallback_selection basic_unicode (no_jitter 0) romantic_request [amour, bistro]
   = Inr amour"
  unfolding smart_fallback_selection_def scored_amour_bistro sorted_amour_bistro
  by (simp add: random_choice_def no_jitter_def)

lemma fallback_amour_bistro_second:
  "smart_fallback_selection basic_unicode (no_jitter 1) romantic_request [amour, bistro]
   = Inr bistro"
  unfolding smart_fallback_selection_def scored_amour_bistro sorted_amour_bistro
  by (simp add: random_choice_def no_jitter_def)

lemma bistro_not_amour: "bistro \<noteq> amour"
proof
  assume "bistro = amour"
  then have "bistro ''vibe'' = amour ''vibe''" by simp
  then show False by (simp add: bistro_def amour_def)
qed

text \<open>
  C6 as stated fails. With jitter zero, the request "romantyka" matches the category
  \<open>romantic\<close> only and, of the two candidates, only Amour matches its venue keywords; yet
  when the draw of \<open>random.choice\<close> is 1 the selection returns Bistro, the second of the
  top three.
\<close>

theorem smart_fallback_selection_top_three_counterexample:
  "uniform (no_jitter 1) 0 = 0 \<and> uniform (no_jitter 1) 1 = 0
   \<and> request_categories basic_unicode romantic_request = [romantic_category]
   \<and> venue_fits basic_unicode (snd (snd romantic_category)) amour
   \<and> \<not> venue_fits basic_unicode (snd (snd romantic_category)) bistro
   \<and> smart_fallback_selection basic_unicode (no_jitter 1) romantic_request [amour, bistro]
       = Inr bistro
   \<and> bistro \<noteq> amour"
  using request_categories_romantic amour_fits bistro_unfit bistro_not_amour
    fallback_amour_bistro_second
  by (simp add: no_jitter_def)


theorem smart_fallback_selection_unique_match_witness:
  "(\<forall>k. uniform (no_jitter 0) k = 0)
   \<and> request_categories basic_unicode romantic_request = [romantic_category]
   \<and> venue_fits basic_unicode (snd (snd romantic_category)) ([amour, bistro] ! 0)
   \<and> \<not> venue_fits basic_unicode (snd (snd romantic_category)) ([amour, bistro] ! 1)
   \<and> smart_fallback_selection basic_unicode (no_jitter 0) romantic_request [amour, bistro]
       = Inr amour"
proof -
  have jitter: "\<forall>k. uniform (no_jitter 0) k = 0"
    by (simp add: no_jitter_def)
  have asked: "request_categories basic_unicode romantic_request
     = [(''romantic'', fst (snd romantic_category), snd (snd romantic_category))]"
    using request_categories_romantic romantic_category_keywords by simp
  have i: "0 < length [amour, bistro]"
    by simp
  have fits: "venue_fits basic_unicode (snd (snd romantic_category)) ([amour, bistro] ! 0)"
    using amour_fits by simp
  have unique: "\<forall>j < length [amour, bistro].
      j \<noteq> 0 \<longrightarrow> \<not> venue_fits basic_unicode (snd (snd romantic_category)) ([amour, bistro] ! j)"
    using bistro_unfit by (auto simp: less_Suc_eq)
  have draw: "choice_draw (no_jitter 0) mod min 3 (length [amour, bistro]) = 0"
    by (simp add: no_jitter_def)
  from smart_fallback_selection_unique_match [OF jitter asked i fits unique] draw
  have "smart_fallback_selection basic_unicode (no_jitter 0) romantic_request [amour, bistro]
        = Inr amour"
    by auto
  with jitter request_categories_romantic amour_fits bistro_unfit show ?thesis
    by simp
qed

theorem smart_fallback_selection_member_witness:
  "[amour, bistro] \<noteq> []
   \<and> (\<exists>chosen \<in> set [amour, bistro].
         smart_fallback_selection basic_unicode (no_jitter 1) romantic_request [amour, bistro]
         = Inr chosen)"
  using smart_fallback_selection_member
    [of "[amour, bistro]" basic_unicode "no_jitter 1" romantic_request]
  by simp

section \<open>Properties of the answer parser\<close>

lemma findall_digits_none:
  assumes "list_all (\<lambda>c. \<not> d c) s"
  shows "findall_digits d s = []"
proof -
  have rest: "dropWhile (\<lambda>c. \<not> d c) s = []"
    using assms by (simp add: list_all_iff)
  show ?thesis
    by (subst findall_digits.simps) (simp only: rest list.case)
qed

lemma findall_digits_first:
  assumes pre: "list_all (\<lambda>c. \<not> d c) pre"
    and run: "run \<noteq> []" "list_all d run"
    and post: "post = [] \<or> \<not> d (hd post)"
  shows "\<exists>numbers. findall_digits d (pre @ run @ post) = run # numbers"
proof -
  obtain c cs where c: "run = c # cs"
    using run(1) by (cases run) auto
  have "dropWhile (\<lambda>c. \<not> d c) (pre @ run @ post) = dropWhile (\<lambda>c. \<not> d c) (run @ post)"
    using pre by (intro dropWhile_append2) (simp add: list_all_iff)
  also have "\<dots> = c # cs @ post"
    using run(2) by (simp add: c)
  finally have rest: "dropWhile (\<lambda>c. \<not> d c) (pre @ run @ post) = c # cs @ post" .
  have "takeWhile d post = []"
    using post by (cases post) auto
  then have run': "takeWhile d (cs @ post) = cs"
    using run(2) by (simp add: c list_all_iff takeWhile_append2)
  have "findall_digits d (pre @ run @ post)
        = (c # takeWhile d (cs @ post)) # findall_digits d (dropWhile d (cs @ post))"
    by (subst findall_digits.simps) (simp only: rest list.case)
  then show ?thesis
    by (simp only: run' c) blast
qed

lemma py_int_digits:
  "run \<noteq> [] \<Longrightarrow> list_all (is_decimal U) run \<Longrightarrow> py_int U run = Inr (decimal_number U run)"
  by (simp add: py_int_def)

lemma parse_choice_no_digit:
  "list_all (\<lambda>c. \<not> is_decimal U c) choice_text \<Longrightarrow> parse_choice U choice_text len = Inr None"
  by (simp add: parse_choice_def findall_digits_none)

lemma parse_choice_first_run:
  assumes "list_all (\<lambda>c. \<not> is_decimal U c) pre"
    and "run \<noteq> []" "list_all (is_decimal U) run"
    and "post = [] \<or> \<not> is_decimal U (hd post)"
  shows "parse_choice U (pre @ run @ post) len =
           Inr (if 1 \<le> decimal_number U run \<and> decimal_number U run \<le> int len
                then Some (nat (decimal_number U run - 1)) else None)"
proof -
  obtain numbers where "findall_digits (is_decimal U) (pre @ run @ post) = run # numbers"
    using findall_digits_first [OF assms] by blast
  then show ?thesis
    using assms(2,3) by (simp add: parse_choice_def py_int_digits Let_def)
qed

lemma ascii_digit: "is_decimal basic_unicode c \<longleftrightarrow> 48 \<le> c \<and> c \<le> 57"
  by (simp add: is_decimal_def basic_unicode_def)

lemma decimal_number_ascii:
  "decimal_number basic_unicode (lit ''2'') = 2"
  "decimal_number basic_unicode (lit ''3'') = 3"
  "decimal_number basic_unicode (lit ''99'') = 99"
  by (simp_all add: decimal_number_def basic_unicode_def lit_def)

lemma parse_two: "2 \<le> len \<Longrightarrow> parse_choice basic_unicode (lit ''2'') len = Inr (Some 1)"
proof -
  assume len: "2 \<le> len"
  have "parse_choice basic_unicode ([] @ lit ''2'' @ []) len
        = Inr (if 1 \<le> decimal_number basic_unicode (lit ''2'')
                  \<and> decimal_number basic_unicode (lit ''2'') \<le> int len
               then Some (nat (decimal_number basic_unicode (lit ''2'') - 1)) else None)"
    by (rule parse_choice_first_run) (simp_all add: ascii_digit lit_def)
  then show ?thesis
    using len by (simp add: decimal_number_ascii)
qed

lemma parse_option_three:
  "3 \<le> len \<Longrightarrow> parse_choice basic_unicode option_three len = Inr (Some 2)"
proof -
  assume len: "3 \<le> len"
  have "parse_choice basic_unicode
          ((lit ''I'' @ [39] @ lit ''d pick option '') @ lit ''3'' @ lit '' because...'') len
        = Inr (if 1 \<le> decimal_number basic_unicode (lit ''3'')
                  \<and> decimal_number basic_unicode (lit ''3'') \<le> int len
               then Some (nat (decimal_number basic_unicode (lit ''3'') - 1)) else None)"
    by (rule parse_choice_first_run) (simp_all add: ascii_digit lit_def)
  moreover have "(lit ''I'' @ [39] @ lit ''d pick option '') @ lit ''3'' @ lit '' because...''
        = option_three"
    by (simp add: option_three_def lit_def)
  ultimately show ?thesis
    using len by (simp add: decimal_number_ascii)
qed

lemma parse_no_clear_answer:
  "parse_choice basic_unicode (lit ''no clear answer'') len = Inr None"
  by (rule parse_choice_no_digit) (simp add: ascii_digit lit_def)

lemma parse_ninety_nine: "parse_choice basic_unicode (lit ''99'') 5 = Inr None"
proof -
  have "parse_choice basic_unicode ([] @ lit ''99'' @ []) 5
        = Inr (if 1 \<le> decimal_number basic_unicode (lit ''99'')
                  \<and> decimal_number basic_unicode (lit ''99'') \<le> int 5
               then Some (nat (decimal_number basic_unicode (lit ''99'') - 1)) else None)"
    by (rule parse_choice_first_run) (simp_all add: ascii_digit lit_def)
  then show ?thesis
    by (simp add: decimal_number_ascii)
qed


text \<open>
  C4. The parser reads the first maximal run of decimal digits of the answer. An answer
  without any digit yields failure (\<open>None\<close>). Otherwise, with \<open>v\<close> the number that the run
  denotes, the result is failure exactly when \<open>v\<close> lies outside \<open>[1, len]\<close>, and else the
  validated choice: the 1-based index \<open>v\<close>, held as the list position \<open>v - 1\<close>. So "2" is
  index 2, the answer "I'd pick option 3 because..." is index 3, "no clear answer" is a
  failure, and "99" with five candidates is a failure.
\<close>

theorem parse_choice_first_number:
  "(list_all (\<lambda>c. \<not> is_decimal U c) choice_text
      \<longrightarrow> parse_choice U choice_text len = Inr None)
   \<and> (list_all (\<lambda>c. \<not> is_decimal U c) pre \<and> run \<noteq> [] \<and> list_all (is_decimal U) run
        \<and> (post = [] \<or> \<not> is_decimal U (hd post))
      \<longrightarrow> parse_choice U (pre @ run @ post) len =
            Inr (if 1 \<le> decimal_number U run \<and> decimal_number U run \<le> int len
                 then Some (nat (decimal_number U run - 1)) else None))
   \<and> (2 \<le> len \<longrightarrow> parse_choice basic_unicode (lit ''2'') len = Inr (Some 1))
   \<and> (3 \<le> len \<longrightarrow> parse_choice basic_unicode option_three len = Inr (Some 2))
   \<and> parse_choice basic_unicode (lit ''no clear answer'') len = Inr None
   \<and> parse_choice basic_unicode (lit ''99'') 5 = Inr None"
  using parse_choice_no_digit [of U choice_text len]
    parse_choice_first_run [of U pre run post len]
    parse_two [of len] parse_option_three [of len] parse_no_clear_answer [of len]
    parse_ninety_nine
  by blast

theorem parse_choice_first_number_witness:
  "list_all (\<lambda>c. \<not> is_decimal basic_unicode c) (lit ''no clear answer'')
   \<and> list_all (\<lambda>c. \<not> is_decimal basic_unicode c) (lit ''pick '')
   \<and> list_all (is_decimal basic_unicode) (lit ''12'')
   \<and> \<not> is_decimal basic_unicode (hd (lit '' now''))
   \<and> parse_choice basic_unicode (lit ''pick 12 now'') 20 = Inr (Some 11)
   \<and> parse_choice basic_unicode (lit ''2'') 20 = Inr (Some 1)
   \<and> parse_choice basic_unicode option_three 20 = Inr (Some 2)"
proof -
  have digits: "list_all (\<lambda>c. \<not> is_decimal basic_unicode c) (lit ''no clear answer'')"
    "list_all (\<lambda>c. \<not> is_decimal basic_unicode c) (lit ''pick '')"
    "list_all (is_decimal basic_unicode) (lit ''12'')"
    "\<not> is_decimal basic_unicode (hd (lit '' now''))"
    "lit ''12'' \<noteq> []"
    by (simp_all add: ascii_digit lit_def)
  have twelve: "decimal_number basic_unicode (lit ''12'') = 12"
    by (simp add: decimal_number_def basic_unicode_def lit_def)
  have joined: "lit ''pick '' @ lit ''12'' @ lit '' now'' = lit ''pick 12 now''"
    by (simp add: lit_def)
  show ?thesis
    using parse_choice_first_number
      [of basic_unicode "lit ''no clear answer''" 20 "lit ''pick ''" "lit ''12''" "lit '' now''"]
      digits
    by (simp add: twelve joined)
qed

section \<open>Properties of the engine\<close>

lemma shuffle_from_set_length:
  "k < length x \<Longrightarrow>
     set (shuffle_from draw k x) = set x \<and> length (shuffle_from draw k x) = length x"
proof (induction k arbitrary: x)
  case 0
  then show ?case by simp
next
  case (Suc i)
  let ?j = "draw (Suc i) mod (Suc i + 1)"
  let ?y = "x[Suc i := x ! ?j, ?j := x ! Suc i]"
  have "?j < Suc i + 1"
    by (rule mod_less_divisor) simp
  then have j: "?j < length x"
    using Suc.prems by linarith
  have "set ?y = set x"
    using Suc.prems j by (rule set_swap)
  moreover have "length ?y = length x"
    by simp
  moreover have "i < length ?y"
    using Suc.prems by simp
  ultimately show ?case
    using Suc.IH [of ?y] by (simp add: Let_def)
qed

lemma set_shuffle: "set (shuffle draw x) = set x"
proof (cases "x = []")
  case True
  then show ?thesis by (simp add: shuffle_def)
next
  case False
  then have "length x - 1 < length x" by simp
  then show ?thesis
    unfolding shuffle_def by (simp add: shuffle_from_set_length)
qed







lemma init_openai_client_frame:
  assumes "init_openai_client s = Inr s0"
  shows "heap s0 = heap s" "fresh s0 = fresh s" "restaurants_data s0 = restaurants_data s"
  using assms by (auto simp: init_openai_client_def split: if_splits)

lemma try_body_import_error:
  "init_openai_client s = Inl e \<Longrightarrow> try_body U R call user_request s = (Inl e, s)"
  by (simp add: try_body_def)

lemma try_body_empty:
  assumes "init_openai_client s = Inr s0" and "heap s (restaurants_data s) = []"
  shows "try_body U R call user_request s = (Inr None, s0)"
  using assms by (simp add: try_body_def init_openai_client_frame [OF assms(1)])

lemma try_body_nonempty:
  assumes "init_openai_client s = Inr s0" and "heap s (restaurants_data s) \<noteq> []"
  shows "try_body U R call user_request s =
     ((case filter_by_menu U user_request
              (shuffle (shuffle_draw R) (heap s (restaurants_data s))) of
         Inl e \<Rightarrow> Inl e
       | Inr filtered_restaurants \<Rightarrow>
           (case call of
              Timeout \<Rightarrow> Inl TimeoutError
            | Failure \<Rightarrow> Inl CallError
            | Answer choice_text \<Rightarrow>
                (case chosen_restaurant U R user_request filtered_restaurants choice_text of
                   Inl e \<Rightarrow> Inl e
                 | Inr chosen \<Rightarrow> Inr (Some (recommendation_of chosen))))),
      shuffled_state R s0)"
  using assms
  by (simp add: try_body_def list_copy_def random_shuffle_def shuffled_state_def Let_def
      init_openai_client_frame [OF assms(1)] split: sum.splits ranking.splits)


lemma shuffled_state_catalog:
  "restaurants_data (shuffled_state R s) = restaurants_data s"
  "set (heap (shuffled_state R s) (restaurants_data s)) = set (heap s (restaurants_data s))"
  by (simp_all add: shuffled_state_def set_shuffle)

lemma snd_try_body_frame:
  "restaurants_data (snd (try_body U R call user_request s)) = restaurants_data s"
  "set (heap (snd (try_body U R call user_request s)) (restaurants_data s))
     = set (heap s (restaurants_data s))"
  "p < fresh s \<Longrightarrow> heap (snd (try_body U R call user_request s)) p = heap s p"
proof -
  let ?s' = "snd (try_body U R call user_request s)"
  have "restaurants_data ?s' = restaurants_data s
      \<and> set (heap ?s' (restaurants_data s)) = set (heap s (restaurants_data s))
      \<and> (p < fresh s \<longrightarrow> heap ?s' p = heap s p)"
  proof (cases "init_openai_client s")
    case (Inl e)
    then show ?thesis by (simp add: try_body_import_error)
  next
    case (Inr s0)
    note frame = init_openai_client_frame [OF Inr]
    show ?thesis
    proof (cases "heap s (restaurants_data s) = []")
      case True
      then show ?thesis
        by (simp add: try_body_empty [OF Inr True] frame)
    next
      case False
      have "?s' = shuffled_state R s0"
        by (simp add: try_body_nonempty [OF Inr False])
      then show ?thesis
        by (simp add: shuffled_state_def frame set_shuffle)
    qed
  qed
  then show "restaurants_data ?s' = restaurants_data s"
    "set (heap ?s' (restaurants_data s)) = set (heap s (restaurants_data s))"
    "p < fresh s \<Longrightarrow> heap ?s' p = heap s p"
    by simp_all
qed

lemma fst_get_recommendation:
  "fst (get_recommendation U R call user_request s) =
     (case fst (try_body U R call user_request s) of
        Inr result \<Rightarrow> Inr result
      | Inl e \<Rightarrow> fallback_selection_dict U R user_request
                 (snd (try_body U R call user_request s)))"
  by (cases "try_body U R call user_request s")
    (auto simp: get_recommendation_def split: sum.splits)

lemma snd_get_recommendation:
  "snd (get_recommendation U R call user_request s) = snd (try_body U R call user_request s)"
  by (cases "try_body U R call user_request s")
    (auto simp: get_recommendation_def split: sum.splits)


text \<open>
  The guard of lines 91 to 93: once the client is set, or can be set, an empty catalog
  gives \<open>None\<close> for every request, every outcome of the ranking call and every draw.
\<close>

lemma get_recommendation_empty_catalog_ready:
  assumes "init_openai_client s = Inr s0" and "heap s (restaurants_data s) = []"
  shows "get_recommendation U R call user_request s = (Inr None, s0)"
  by (simp add: get_recommendation_def try_body_empty [OF assms])

lemma smart_fallback_selection_empty:
  "smart_fallback_selection U R user_request [] = Inl IndexError"
  by (simp add: smart_fallback_selection_def scored_restaurants_def sort_descending_def)

lemma get_recommendation_empty_catalog_import_error:
  assumes "init_openai_client s = Inl e" and "heap s (restaurants_data s) = []"
  shows "get_recommendation U R call user_request s = (Inl IndexError, s)"
  using assms
  by (simp add: get_recommendation_def try_body_import_error fallback_selection_dict_def
      smart_fallback_selection_empty)

text \<open>
  C3 at a state the code can reach: no catalog has been loaded, the client is not yet
  set, and \<open>import openai\<close> raises. The import is inside the \<open>try\<close> and before the guard, so
  the handler runs and calls the fallback on the empty catalog, where
  \<open>scored_restaurants[0]\<close> raises \<open>IndexError\<close>. The exception leaves
  \<open>get_recommendation\<close>; the call does not return \<open>None\<close>.
\<close>

theorem get_recommendation_empty_catalog_raises:
  "heap unready_empty_state (restaurants_data unready_empty_state) = []
   \<and> init_openai_client unready_empty_state = Inl ImportError
   \<and> get_recommendation basic_unicode scenario_rand (Answer (lit ''1'')) pizza_request
         unready_empty_state
       = (Inl IndexError, unready_empty_state)"
proof -
  have catalog: "heap unready_empty_state (restaurants_data unready_empty_state) = []"
    by (simp add: unready_empty_state_def)
  have init: "init_openai_client unready_empty_state = Inl ImportError"
    by (simp add: init_openai_client_def unready_empty_state_def)
  from get_recommendation_empty_catalog_import_error [OF init catalog] catalog init
  show ?thesis by simp
qed


lemma heap_scenario_state:
  "heap scenario_state (restaurants_data scenario_state) = [sushi_bar, pizza_place]"
  by (simp add: scenario_state_def)

lemma init_scenario_state: "init_openai_client scenario_state = Inr scenario_state"
  by (simp add: init_openai_client_def scenario_state_def)


text \<open>
  C10. A call leaves the stored catalog as it was: the attribute still holds the same
  reference, and the list behind every reference that existed before the call, the
  catalog's among them, has the same records in the same order. The shuffle writes only
  to the fresh copy.
\<close>

theorem get_recommendation_keeps_catalog:
  assumes "restaurants_data s < fresh s"
  shows "restaurants_data (snd (get_recommendation U R call user_request s))
           = restaurants_data s
         \<and> heap (snd (get_recommendation U R call user_request s)) (restaurants_data s)
             = heap s (restaurants_data s)
         \<and> (\<forall>p < fresh s. heap (snd (get_recommendation U R call user_request s)) p
                             = heap s p)"
  using assms by (simp add: snd_get_recommendation snd_try_body_frame)

theorem get_recommendation_keeps_catalog_witness:
  "restaurants_data scenario_state < fresh scenario_state
   \<and> heap (snd (get_recommendation basic_unicode scenario_rand Timeout pizza_request
                  scenario_state)) (restaurants_data scenario_state)
       = [sushi_bar, pizza_place]"
  using get_recommendation_keeps_catalog
    [of scenario_state basic_unicode scenario_rand Timeout pizza_request]
  by (simp add: scenario_state_def)

lemma recommendation_of_fields:
  "name (recommendation_of chosen)
     = (case chosen ''name'' of Some v \<Rightarrow> v | None \<Rightarrow> default_name)"
  "address (recommendation_of chosen)
     = (case chosen ''address'' of Some v \<Rightarrow> v | None \<Rightarrow> default_address)"
  "socials (recommendation_of chosen)
     = (case chosen ''socials'' of Some v \<Rightarrow> v | None \<Rightarrow> default_socials)"
  "vibe (recommendation_of chosen)
     = (case chosen ''vibe'' of Some v \<Rightarrow> v | None \<Rightarrow> default_vibe)"
  "aim (recommendation_of chosen)
     = (case chosen ''aim'' of Some v \<Rightarrow> v | None \<Rightarrow> default_aim)"
  "cuisine (recommendation_of chosen)
     = (case chosen ''cuisine'' of Some v \<Rightarrow> v | None \<Rightarrow> default_cuisine)"
  "menu (recommendation_of chosen)
     = (case chosen ''menu'' of Some v \<Rightarrow> v | None \<Rightarrow> [])"
  "menu_url (recommendation_of chosen)
     = (case chosen ''menu_url'' of Some v \<Rightarrow> v | None \<Rightarrow> [])"
  "photo (recommendation_of chosen)
     = (case chosen ''photo'' of Some v \<Rightarrow> convert_google_drive_url v | None \<Rightarrow> [])"
  by (simp_all add: recommendation_of_def dict_get_def Let_def convert_google_drive_url_def
      split: option.splits)







lemma shuffle_scenario:
  "shuffle (shuffle_draw scenario_rand) [sushi_bar, pizza_place] = [pizza_place, sushi_bar]"
  by (simp add: shuffle_def scenario_rand_def)

lemma filter_by_menu_shuffled:
  "filter_by_menu basic_unicode pizza_request [pizza_place, sushi_bar] = Inr [pizza_place]"
  by (simp add: filter_by_menu_def requested_dishes_pizza menu_sushi_bar menu_pizza_place
      no_pizza_in_sushi_rolls pizza_in_pizza_pasta del: has_requested_dish.simps)

lemma request_categories_pizza: "request_categories basic_unicode pizza_request = []"
  unfolding request_categories_def lower_pizza_request
  by (simp add: keywords_map_def any_keyword_in_def lit_def pizza_request_def
      sublist_Cons_right)

lemma category_score_no_category:
  assumes "request_categories U user_request = []"
  shows "category_score U (str_lower U user_request) restaurant = 0"
proof -
  have "filter (\<lambda>(category, user_keywords, restaurant_keywords).
                 any_keyword_in user_keywords (str_lower U user_request)
                 \<and> any_keyword_in restaurant_keywords (restaurant_text U restaurant))
               keywords_map
        = filter (\<lambda>(category, user_keywords, restaurant_keywords).
                 any_keyword_in restaurant_keywords (restaurant_text U restaurant))
            (request_categories U user_request)"
    by (simp add: request_categories_def case_prod_unfold conj_commute)
  then show ?thesis
    by (simp add: category_score_count assms)
qed

lemma scored_scenario:
  "scored_restaurants basic_unicode scenario_rand pizza_request [sushi_bar, pizza_place]
   = [(1, sushi_bar), (1 / 2, pizza_place)]"
  by (simp add: scored_restaurants_def category_score_no_category [OF request_categories_pizza]
      scenario_rand_def)

lemma sorted_scenario:
  "sort_descending [(1, sushi_bar), (1 / 2, pizza_place)]
   = [(1, sushi_bar), (1 / 2, pizza_place)]"
  by (simp add: sort_descending_def)

lemma fallback_scenario:
  "smart_fallback_selection basic_unicode scenario_rand pizza_request [sushi_bar, pizza_place]
   = Inr sushi_bar"
  unfolding smart_fallback_selection_def scored_scenario sorted_scenario
  by (simp add: random_choice_def scenario_rand_def)

lemma shuffled_scenario_state:
  "heap (shuffled_state scenario_rand scenario_state) (fresh scenario_state)
     = [pizza_place, sushi_bar]"
  "heap (shuffled_state scenario_rand scenario_state)
        (restaurants_data (shuffled_state scenario_rand scenario_state))
     = [sushi_bar, pizza_place]"
  using shuffle_scenario by (simp_all add: shuffled_state_def scenario_state_def)

lemma try_body_scenario_timeout:
  "try_body basic_unicode scenario_rand Timeout pizza_request scenario_state
   = (Inl TimeoutError, shuffled_state scenario_rand scenario_state)"
  by (simp add: try_body_nonempty [OF init_scenario_state] heap_scenario_state shuffle_scenario
      filter_by_menu_shuffled)

lemma name_sushi_bar: "name (recommendation_of sushi_bar) = lit ''Sushi Bar''"
  by (simp add: recommendation_of_fields sushi_bar_def)

text \<open>
  C1 at the scenario of the specification. The menu filter keeps only Pizza Place, and
  the ranking call times out. The handler then calls the fallback on the whole catalog,
  not on the filtered candidates, and in the run where the first scored candidate draws
  the larger jitter and \<open>random.choice\<close> draws position 0 the result is Sushi Bar.
\<close>

theorem timeout_fallback_on_whole_catalog:
  "filter_by_menu basic_unicode pizza_request
     (shuffle (shuffle_draw scenario_rand)
        (heap scenario_state (restaurants_data scenario_state)))
     = Inr [pizza_place]
   \<and> fst (get_recommendation basic_unicode scenario_rand Timeout pizza_request scenario_state)
       = Inr (Some (recommendation_of sushi_bar))
   \<and> name (recommendation_of sushi_bar) = lit ''Sushi Bar''"
proof -
  have "fst (get_recommendation basic_unicode scenario_rand Timeout pizza_request
               scenario_state)
        = fallback_selection_dict basic_unicode scenario_rand pizza_request
            (shuffled_state scenario_rand scenario_state)"
    by (simp add: fst_get_recommendation try_body_scenario_timeout)
  also have "\<dots> = Inr (Some (recommendation_of sushi_bar))"
    by (simp add: fallback_selection_dict_def shuffled_scenario_state fallback_scenario)
  finally show ?thesis
    by (simp add: heap_scenario_state shuffle_scenario filter_by_menu_shuffled name_sushi_bar)
qed

text \<open>
  The sibling branch at the same input: when the call returns an answer without a number,
  lines 181 and 182 call the fallback on the filtered candidates, and the result is Pizza
  Place in every run.
\<close>

lemma unparsable_answer_fallback_on_filtered:
  "fst (get_recommendation basic_unicode R (Answer (lit ''no clear answer'')) pizza_request
          scenario_state)
   = Inr (Some (recommendation_of pizza_place))"
proof -
  have shuffled: "shuffle (shuffle_draw R) [sushi_bar, pizza_place] = [sushi_bar, pizza_place]
      \<or> shuffle (shuffle_draw R) [sushi_bar, pizza_place] = [pizza_place, sushi_bar]"
  proof -
    let ?j = "shuffle_draw R (Suc 0) mod (Suc 0 + 1)"
    have "?j < Suc 0 + 1"
      by (rule mod_less_divisor) simp
    then have "?j = 0 \<or> ?j = 1"
      by linarith
    moreover have "shuffle (shuffle_draw R) [sushi_bar, pizza_place]
        = [sushi_bar, pizza_place][Suc 0 := [sushi_bar, pizza_place] ! ?j, ?j := pizza_place]"
      by (simp add: shuffle_def Let_def)
    ultimately show ?thesis
      by auto
  qed
  then have filtered: "filter_by_menu basic_unicode pizza_request
      (shuffle (shuffle_draw R) [sushi_bar, pizza_place]) = Inr [pizza_place]"
    using filter_by_menu_scenario filter_by_menu_shuffled by auto
  obtain chosen where "chosen \<in> set [pizza_place]"
    "smart_fallback_selection basic_unicode R pizza_request [pizza_place] = Inr chosen"
    using smart_fallback_selection_in_list [of "[pizza_place]" basic_unicode R pizza_request]
    by blast
  then have "chosen_restaurant basic_unicode R pizza_request [pizza_place]
      (lit ''no clear answer'') = Inr pizza_place"
    by (simp add: chosen_restaurant_def parse_no_clear_answer)
  then have "fst (try_body basic_unicode R (Answer (lit ''no clear answer'')) pizza_request
      scenario_state) = Inr (Some (recommendation_of pizza_place))"
    by (simp add: try_body_nonempty [OF init_scenario_state] heap_scenario_state filtered)
  then show ?thesis
    by (simp add: fst_get_recommendation)
qed

end
